theory Spec2Isabelle
  imports Main "HOL-Library.Sublist"
begin

section \<open>The confession table and the values that travel over HTTP\<close>

text \<open>
  Strings are lists of code units. An Isabelle \<^typ>\<open>char\<close> has 256 values, so the model
  covers the texts whose UTF-16 code units lie in U+0000..U+00FF (Basic Latin and Latin-1
  Supplement); on these, \<open>length\<close> is JavaScript's \<open>.length\<close>.

  A row of table \<open>confessions\<close> (server.ts, lines 30-55). Column \<open>id\<close> is named
  \<open>row_id\<close> here, \<open>id\<close> being the identity function of HOL. The nullable text columns are
  options, \<open>None\<close> for SQL NULL. \<open>timestamp\<close> is the clock reading that
  \<open>CURRENT_TIMESTAMP\<close> stores, as a number of seconds; \<open>likes\<close> is an unbounded integer
  (the 64-bit range of the column is not reached by increments of one from zero).
\<close>

record confession =
  row_id :: int
  content :: string
  category :: string
  recipient :: "string option"
  sender :: "string option"
  feeling :: "string option"
  song :: "string option"
  timestamp :: nat
  likes :: int

text \<open>
  The database file: the rows in insertion order, and the counter that \<open>AUTOINCREMENT\<close>
  keeps in \<open>sqlite_sequence\<close> (the largest id handed out so far).
\<close>

record database =
  confessions :: "confession list"
  sqlite_sequence :: int

text \<open>
  The JSON body of \<open>POST /api/confessions\<close>. Every field is a text or is missing
  (\<open>undefined\<close> or \<open>null\<close>, both \<open>None\<close>), as the data model of the specification types
  them.
\<close>

record create_body =
  body_content :: "string option"
  body_category :: "string option"
  body_recipient :: "string option"
  body_sender :: "string option"
  body_feeling :: "string option"
  body_song :: "string option"

text \<open>A record of the hosted table \<open>Confession\<close> (columns \<open>id\<close>, \<open>Confession\<close>, \<open>Like\<close>).\<close>

record message =
  msg_id :: string
  Confession :: string
  Like :: int

text \<open>The JSON bodies the handlers send, and a response as status code and body.\<close>

datatype json =
    JError string
  | JErrorHint string string
  | JId int
  | JSuccess bool
  | JConfessions "confession list"
  | JMessages "message list"
  | JMessage "message option"

type_synonym response = "nat \<times> json"

subsection \<open>JavaScript's truthiness on optional texts\<close>

text \<open>
  A missing value and the empty string are the falsy values of an optional text:
  \<open>v || d\<close> with a string default, and \<open>v || null\<close>.
\<close>

definition or_default :: "string option \<Rightarrow> string \<Rightarrow> string" where
  "or_default v d = (case v of None \<Rightarrow> d | Some s \<Rightarrow> if s = [] then d else s)"

definition or_null :: "string option \<Rightarrow> string option" where
  "or_null v = (case v of None \<Rightarrow> None | Some s \<Rightarrow> if s = [] then None else Some s)"

section \<open>The statements run on the local store\<close>

text \<open>
  Each prepared statement can raise (the handlers wrap it in \<open>try\<close>); the flag \<open>raises\<close>
  says whether this run does, and then the result is \<open>None\<close> and nothing was written.

  \<open>INSERT INTO confessions (content, category, recipient, sender, feeling, song)\<close>: the
  store assigns the id (one more than the largest handed out), the timestamp (the clock,
  \<open>now\<close>) and \<open>likes = 0\<close>. The result carries \<open>lastInsertRowid\<close>.
\<close>

definition run_insert ::
  "bool \<Rightarrow> nat \<Rightarrow> database \<Rightarrow> string \<Rightarrow> string \<Rightarrow> string option \<Rightarrow> string option \<Rightarrow>
   string option \<Rightarrow> string option \<Rightarrow> (database \<times> int) option" where
  "run_insert raises now db c cat rcp sdr fl sg =
     (if raises then None
      else let rowid = sqlite_sequence db + 1 in
        Some (db\<lparr>confessions := confessions db @
                 [\<lparr>row_id = rowid, content = c, category = cat, recipient = rcp,
                   sender = sdr, feeling = fl, song = sg, timestamp = now, likes = 0\<rparr>],
                sqlite_sequence := rowid\<rparr>, rowid))"


text \<open>
  \<open>SELECT * FROM confessions ORDER BY timestamp DESC LIMIT 50\<close>. The order among rows of
  equal timestamp is left open by SQL; this sort keeps one of the possible orders.
\<close>

fun insert_desc :: "confession \<Rightarrow> confession list \<Rightarrow> confession list" where
  "insert_desc r [] = [r]"
| "insert_desc r (x # xs) =
     (if timestamp x \<le> timestamp r then r # x # xs else x # insert_desc r xs)"

fun order_by_timestamp_desc :: "confession list \<Rightarrow> confession list" where
  "order_by_timestamp_desc [] = []"
| "order_by_timestamp_desc (r # rs) = insert_desc r (order_by_timestamp_desc rs)"

definition all_recent :: "bool \<Rightarrow> database \<Rightarrow> confession list option" where
  "all_recent raises db =
     (if raises then None else Some (take 50 (order_by_timestamp_desc (confessions db))))"

section \<open>The handlers of the confession service\<close>

text \<open>\<open>app.get("/api/confessions")\<close>, server.ts lines 232-239.\<close>

definition get_confessions :: "bool \<Rightarrow> database \<Rightarrow> response" where
  "get_confessions raises db =
     (case all_recent raises db of
        Some rows \<Rightarrow> (200, JConfessions rows)
      | None \<Rightarrow> (500, JError ''Failed to fetch confessions''))"

text \<open>
  \<open>app.post("/api/confessions")\<close>, server.ts lines 241-253: the guard
  \<open>!content || content.length < 5\<close> returns early, before the statement is prepared. \<open>!content\<close>
  holds for a missing content and for the empty text.
\<close>

definition post_confession ::
  "bool \<Rightarrow> nat \<Rightarrow> database \<Rightarrow> create_body \<Rightarrow> database \<times> response" where
  "post_confession raises now db b =
     (case body_content b of
        None \<Rightarrow> (db, (400, JError ''Confession too short''))
      | Some c \<Rightarrow>
          if c = [] \<or> length c < 5 then (db, (400, JError ''Confession too short''))
          else
            (case run_insert raises now db c
                    (or_default (body_category b) ''General'') (or_null (body_recipient b))
                    (or_null (body_sender b)) (or_null (body_feeling b))
                    (or_null (body_song b)) of
               Some (db', rowid) \<Rightarrow> (db', (201, JId rowid))
             | None \<Rightarrow> (db, (500, JError ''Failed to save confession''))))"


section \<open>The mirror store adapter\<close>

text \<open>
  The environment variables read by \<open>getSupabase\<close> (server.ts lines 14-25), the client that
  \<open>createClient(url, key)\<close> builds, and \<open>getSupabase\<close> itself: it answers the cached
  client when there is one, builds and caches one when both variables are non-empty texts,
  and answers \<open>null\<close> otherwise. Its result is also the new value of the global
  \<open>supabaseClient\<close>.
\<close>

record env =
  SUPABASE_URL :: "string option"
  SUPABASE_ANON_KEY :: "string option"

datatype client = Client string string

definition getSupabase :: "env \<Rightarrow> client option \<Rightarrow> client option" where
  "getSupabase e supabaseClient =
     (case supabaseClient of
        Some c \<Rightarrow> Some c
      | None \<Rightarrow>
          (case SUPABASE_URL e of
             None \<Rightarrow> None
           | Some url \<Rightarrow>
               (case SUPABASE_ANON_KEY e of
                  None \<Rightarrow> None
                | Some key \<Rightarrow> if url \<noteq> [] \<and> key \<noteq> [] then Some (Client url key) else None)))"

text \<open>
  What awaiting a query gives the handler: the pair \<open>{data, error}\<close> (\<open>error\<close> by its
  \<open>message\<close>, \<open>None\<close> for \<open>null\<close>), or an exception with its message.
\<close>

datatype 'a outcome = Thrown string | Result "'a option" "string option"

text \<open>
  The hosted service at the time of a call: it serves the query, reports an error, or the
  call breaks with an exception. \<open>update_eq_select\<close> is
  \<open>.update({Like: v}).eq('id', i).select()\<close> on the hosted table: the rows whose id is \<open>i\<close>
  get \<open>Like = v\<close> and are returned.
\<close>

datatype upstream = Serves | Reports string | Breaks string

definition update_eq_select ::
  "upstream \<Rightarrow> message list \<Rightarrow> int \<Rightarrow> string \<Rightarrow> message list \<times> message list outcome" where
  "update_eq_select up tbl v i =
     (case up of
        Serves \<Rightarrow>
          (map (\<lambda>m. if msg_id m = i then m\<lparr>Like := v\<rparr> else m) tbl,
           Result (Some (map (\<lambda>m. m\<lparr>Like := v\<rparr>) (filter (\<lambda>m. msg_id m = i) tbl))) None)
      | Reports msg \<Rightarrow> (tbl, Result None (Some msg))
      | Breaks msg \<Rightarrow> (tbl, Thrown msg))"

text \<open>
  \<open>app.get(['/api/supabase/messages', '/api/supabase/messages/'])\<close>, server.ts lines
  168-187. \<open>sel\<close> is the outcome of \<open>supabase.from('Confession').select('*')\<close>; the handler
  returns the global \<open>supabaseClient\<close> and the response.
\<close>

definition hint :: string where
  "hint = ''Check if table '' @ [CHR 0x22] @ ''Confession'' @ [CHR 0x22] @
          '' exists with columns '' @ [CHR 0x22] @ ''Confession'' @ [CHR 0x22] @
          '' and '' @ [CHR 0x22] @ ''Like'' @ [CHR 0x22]"

definition get_supabase_messages ::
  "env \<Rightarrow> client option \<Rightarrow> message list outcome \<Rightarrow> client option \<times> response" where
  "get_supabase_messages e supabaseClient sel =
     (case getSupabase e supabaseClient of
        None \<Rightarrow> (None, (503, JError ''Supabase credentials missing in Secrets tab''))
      | Some supabase \<Rightarrow>
          (Some supabase,
           (case sel of
              Thrown msg \<Rightarrow> (500, JError msg)
            | Result data (Some msg) \<Rightarrow> (400, JErrorHint msg hint)
            | Result data None \<Rightarrow>
                (200, JMessages (case data of None \<Rightarrow> [] | Some rows \<Rightarrow> rows)))))"

text \<open>
  \<open>app.post('/api/supabase/messages/:id/like')\<close>, server.ts lines 209-229. The body carries
  \<open>currentLikes\<close>, a number or nothing; \<open>currentLikes || 0\<close> replaces nothing (and zero) by
  zero. Reading \<open>data[0]\<close> of a \<open>null\<close> data raises a TypeError, which the \<open>catch\<close> turns
  into a 500.
\<close>

record like_body =
  currentLikes :: "int option"

definition or_zero :: "int option \<Rightarrow> int" where
  "or_zero v = (case v of None \<Rightarrow> 0 | Some n \<Rightarrow> if n = 0 then 0 else n)"

definition post_supabase_like ::
  "env \<Rightarrow> client option \<Rightarrow> upstream \<Rightarrow> message list \<Rightarrow> string \<Rightarrow> like_body \<Rightarrow>
   client option \<times> message list \<times> response" where
  "post_supabase_like e supabaseClient up tbl i b =
     (case getSupabase e supabaseClient of
        None \<Rightarrow> (None, tbl, (503, JError ''Supabase not configured''))
      | Some supabase \<Rightarrow>
          (case update_eq_select up tbl (or_zero (currentLikes b) + 1) i of
             (tbl', Thrown msg) \<Rightarrow> (Some supabase, tbl', (500, JError msg))
           | (tbl', Result data (Some msg)) \<Rightarrow> (Some supabase, tbl', (400, JError msg))
           | (tbl', Result None None) \<Rightarrow>
               (Some supabase, tbl',
                (500, JError (''Cannot read properties of null (reading '' @ [CHR 0x27] @
                              ''0'' @ [CHR 0x27] @ '')'')))
           | (tbl', Result (Some rows) None) \<Rightarrow>
               (Some supabase, tbl',
                (200, JMessage (case rows of [] \<Rightarrow> None | m # _ \<Rightarrow> Some m)))))"

text \<open>
  \<open>handleSupabaseLike\<close>, App.tsx lines 279-292: the request the client sends, as the path
  segment and the body. The feed calls it with \<open>msg.id\<close> and \<open>msg.Like\<close> of the record as the
  client last fetched it.
\<close>

definition handleSupabaseLike :: "string \<Rightarrow> int \<Rightarrow> string \<times> like_body" where
  "handleSupabaseLike i n = (i, \<lparr>currentLikes = Some n\<rparr>)"

section \<open>The presentation client\<close>

subsection \<open>The category filter\<close>

text \<open>
  \<open>Array.prototype.filter\<close>: the elements that pass the test, pushed in index order.
  \<open>filteredConfessions\<close>, App.tsx lines 326-328.
\<close>

fun filter_js :: "('a \<Rightarrow> bool) \<Rightarrow> 'a list \<Rightarrow> 'a list" where
  "filter_js p [] = []"
| "filter_js p (x # xs) = (if p x then x # filter_js p xs else filter_js p xs)"

definition filteredConfessions :: "string \<Rightarrow> confession list \<Rightarrow> confession list" where
  "filteredConfessions filter' cs =
     (if filter' = ''All'' then cs else filter_js (\<lambda>c. category c = filter') cs)"

subsection \<open>Character classes on U+0000..U+00FF\<close>

text \<open>
  \<open>\s\<close> of an ECMAScript regular expression: tab, line feed, vertical tab, form feed,
  carriage return, space and no-break space are the members below U+0100.
\<close>

definition is_space :: "char \<Rightarrow> bool" where
  "is_space c = (c \<in> set [CHR 0x09, CHR 0x0A, CHR 0x0B, CHR 0x0C, CHR 0x0D, CHR 0x20, CHR 0xA0])"

text \<open>The class \<open>[.,!?;:]\<close>.\<close>

definition is_punct :: "char \<Rightarrow> bool" where
  "is_punct c = (c \<in> set ''.,!?;:'')"

text \<open>The class \<open>[a-zA-Z0-9]\<close>.\<close>

definition is_alnum :: "char \<Rightarrow> bool" where
  "is_alnum c =
     (let n = (of_char c :: nat)
      in (97 \<le> n \<and> n \<le> 122) \<or> (65 \<le> n \<and> n \<le> 90) \<or> (48 \<le> n \<and> n \<le> 57))"

text \<open>
  \<open>String.prototype.toLowerCase\<close>: below U+0100 the letters with a lower-case form are
  A-Z and U+00C0..U+00DE without the multiplication sign U+00D7, and the lower-case form is
  32 code units further.
\<close>

definition lower_unit :: "char \<Rightarrow> char" where
  "lower_unit c =
     (let n = (of_char c :: nat)
      in if (65 \<le> n \<and> n \<le> 90) \<or> (192 \<le> n \<and> n \<le> 222 \<and> n \<noteq> 215)
         then char_of (n + 32) else c)"

definition toLowerCase :: "string \<Rightarrow> string" where
  "toLowerCase s = map lower_unit s"

subsection \<open>The word highlighter\<close>

text \<open>
  \<open>text.split(/(\s+)/)\<close>: the pieces between the maximal runs of white space, and, the
  pattern being one capture group, the runs themselves between them. The text up to the
  first white space is a piece (empty when the text starts with white space); the text after
  the last run is the last piece (empty when the text ends with white space).
\<close>

function split_ws :: "string \<Rightarrow> string list" where
  "split_ws s =
     (let word = takeWhile (\<lambda>c. \<not> is_space c) s;
          rest = dropWhile (\<lambda>c. \<not> is_space c) s
      in if rest = [] then [word]
         else word # takeWhile is_space rest # split_ws (dropWhile is_space rest))"
  by pat_completeness auto
termination
proof (relation "measure length")
  show "wf (measure length)" by simp
next
  fix s :: string and word rest
  assume rest: "rest = dropWhile (\<lambda>c. \<not> is_space c) s" and ne: "rest \<noteq> []"
  from rest ne have "is_space (hd rest)"
    using hd_dropWhile [of "\<lambda>c. \<not> is_space c" s] by simp
  with ne have "length (dropWhile is_space rest) < length rest"
    by (cases rest) (simp_all add: le_imp_less_Suc length_dropWhile_le)
  moreover have "length rest \<le> length s"
    unfolding rest by (rule length_dropWhile_le)
  ultimately show "(dropWhile is_space rest, s) \<in> measure length" by simp
qed

text \<open>
  \<open>SPECIAL_WORDS\<close>, App.tsx lines 41-53: the own properties of the object literal, in
  source order.
\<close>

definition SPECIAL_WORDS :: "(string \<times> string) list" where
  "SPECIAL_WORDS =
     [(''love'', ''text-pink-500 font-bold drop-shadow-sm''),
      (''crush'', ''text-rose-400 font-bold italic''),
      (''heart'', ''text-red-500 animate-pulse''),
      (''forever'', ''text-indigo-400 italic underline decoration-wavy''),
      (''miss'', ''text-blue-400''),
      (''beautiful'', ''text-amber-500 font-serif italic''),
      (''cute'', ''text-pink-300''),
      (''smile'', ''text-yellow-500''),
      (''asiet'', ''text-romantic-gold font-bold tracking-widest uppercase''),
      (''secret'', ''bg-romantic-ink text-white px-1 rounded''),
      (''dream'', ''text-purple-400 italic'')]"

text \<open>
  The value of \<open>SPECIAL_WORDS[key]\<close>. The object literal inherits from \<open>Object.prototype\<close>,
  so a key that is no own property is looked up there: of the names \<open>Object.prototype\<close>
  defines, \<open>constructor\<close> (the function \<open>Object\<close>) and \<open>__proto__\<close> (the prototype object)
  are the two written without a capital letter. Any other key gives \<open>undefined\<close>, here
  \<open>None\<close>.
\<close>

datatype property = ClassName string | ObjectFunction | ObjectPrototype

definition get_property :: "string \<Rightarrow> property option" where
  "get_property key =
     (case map_of SPECIAL_WORDS key of
        Some cls \<Rightarrow> Some (ClassName cls)
      | None \<Rightarrow>
          if key = ''constructor'' then Some ObjectFunction
          else if key = ''__proto__'' then Some ObjectPrototype
          else None)"

text \<open>Truthiness of a looked-up value: everything but \<open>undefined\<close> and the empty string.\<close>

definition truthy :: "property option \<Rightarrow> bool" where
  "truthy v = (case v of None \<Rightarrow> False | Some (ClassName cls) \<Rightarrow> cls \<noteq> [] | Some _ \<Rightarrow> True)"

text \<open>
  \<open>HighlightedText\<close>, App.tsx lines 55-72. \<open>cleanWord\<close> is
  \<open>word.toLowerCase().replace(/[.,!?;:]/g, '')\<close>: the flag \<open>g\<close> deletes every member of the
  class, wherever it stands in the word. A \<open>span\<close> element carries its \<open>className\<close>, if it
  has one, and its text.
\<close>

datatype span = Span "property option" string

definition cleanWord :: "string \<Rightarrow> string" where
  "cleanWord word = filter (\<lambda>c. \<not> is_punct c) (toLowerCase word)"

definition highlight_word :: "string \<Rightarrow> span" where
  "highlight_word word =
     (if truthy (get_property (cleanWord word))
      then Span (get_property (cleanWord word)) word
      else Span None word)"

definition HighlightedText :: "string \<Rightarrow> span list" where
  "HighlightedText text' = map highlight_word (split_ws text')"

text \<open>What the spans show, and the class of a span.\<close>

fun span_text :: "span \<Rightarrow> string" where
  "span_text (Span cls word) = word"

fun span_class :: "span \<Rightarrow> property option" where
  "span_class (Span cls word) = cls"

text \<open>
  The lookup key as the specification words it, for comparison with \<open>cleanWord\<close>:
  punctuation is stripped at the end of the token only, and the token is lower-cased.
\<close>

definition strip_trailing_punct :: "string \<Rightarrow> string" where
  "strip_trailing_punct word = rev (dropWhile is_punct (rev word))"

definition spec_key :: "string \<Rightarrow> string" where
  "spec_key word = toLowerCase (strip_trailing_punct word)"

subsection \<open>The song renderer\<close>

text \<open>
  \<open>SpotifyPlayer\<close>, App.tsx lines 74-118. The pattern
  \<open>https:\/\/open\.spotify\.com\/(track|album|playlist)\/([a-zA-Z0-9]+)\<close> has no anchors:
  \<open>song.match\<close> tries it at each index from the left and stops at the first success.

  \<open>strip_prefix p s\<close> is what follows \<open>p\<close> in \<open>s\<close>, when \<open>s\<close> starts with \<open>p\<close>.
  \<open>match_kinds\<close> tries the alternatives in order at the text after the host, each with the
  rest of the pattern (the slash and the greedy run of letters and digits, at least one),
  and goes on to the next alternative when that fails. \<open>match_here\<close> is the pattern at
  index 0, \<open>match\<close> the search; both give the two capture groups.
\<close>

fun strip_prefix :: "string \<Rightarrow> string \<Rightarrow> string option" where
  "strip_prefix [] s = Some s"
| "strip_prefix (p # ps) [] = None"
| "strip_prefix (p # ps) (c # cs) = (if p = c then strip_prefix ps cs else None)"

fun match_kinds :: "string list \<Rightarrow> string \<Rightarrow> (string \<times> string) option" where
  "match_kinds [] s = None"
| "match_kinds (k # ks) s =
     (case strip_prefix (k @ ''/'') s of
        None \<Rightarrow> match_kinds ks s
      | Some r \<Rightarrow>
          if takeWhile is_alnum r \<noteq> [] then Some (k, takeWhile is_alnum r)
          else match_kinds ks s)"

definition match_here :: "string \<Rightarrow> (string \<times> string) option" where
  "match_here s =
     (case strip_prefix ''https://open.spotify.com/'' s of
        None \<Rightarrow> None
      | Some r \<Rightarrow> match_kinds [''track'', ''album'', ''playlist''] r)"

fun match :: "string \<Rightarrow> (string \<times> string) option" where
  "match [] = match_here []"
| "match (c # cs) =
     (case match_here (c # cs) of Some m \<Rightarrow> Some m | None \<Rightarrow> match cs)"

text \<open>
  The two renderings: the embedded player with the \<open>src\<close> of its frame, or the card with
  the song and a link that searches for it.
\<close>

datatype rendering = Embed string | SearchLink string

definition SpotifyPlayer :: "string \<Rightarrow> rendering" where
  "SpotifyPlayer song' =
     (case match song' of
        Some (type', id') \<Rightarrow>
          Embed (''https://open.spotify.com/embed/'' @ type' @ ''/'' @ id' @
                 ''?utm_source=generator&theme=0'')
      | None \<Rightarrow> SearchLink song')"

text \<open>
  The songs the pattern matches, said without the search: some occurrence of the host
  prefix is followed by one of the three kinds, a slash and at least one letter or digit.
\<close>

definition spotify_link :: "string \<Rightarrow> bool" where
  "spotify_link s =
     (\<exists>before kind ident after.
        s = before @ ''https://open.spotify.com/'' @ kind @ ''/'' @ ident # after \<and>
        kind \<in> {''track'', ''album'', ''playlist''} \<and> is_alnum ident)"

section \<open>Notions used to state the properties\<close>

text \<open>A list of rows is newest first when no row is older than a row after it.\<close>

definition newest_first :: "confession list \<Rightarrow> bool" where
  "newest_first rows = sorted_wrt (\<lambda>a b. timestamp b \<le> timestamp a) rows"

text \<open>
  A list of tokens alternates when it is a word, or a word, a non-empty run of white space
  and an alternating list; a word has no white space in it.
\<close>

fun alternates :: "string list \<Rightarrow> bool" where
  "alternates [] = False"
| "alternates [w] = (\<forall>c \<in> set w. \<not> is_space c)"
| "alternates (w # sp # rest) =
     ((\<forall>c \<in> set w. \<not> is_space c) \<and> sp \<noteq> [] \<and> (\<forall>c \<in> set sp. is_space c) \<and>
      alternates rest)"

text \<open>A store with two rows and a body with every optional field empty, for the examples.\<close>

definition db0 :: database where
  "db0 = \<lparr>confessions =
            [\<lparr>row_id = 1, content = ''I miss you so much'', category = ''Love'',
              recipient = None, sender = None, feeling = None, song = None,
              timestamp = 10, likes = 0\<rparr>,
             \<lparr>row_id = 2, content = ''exams are near'', category = ''Academic'',
              recipient = Some ''Sam'', sender = None, feeling = None, song = None,
              timestamp = 12, likes = 3\<rparr>],
          sqlite_sequence = 2\<rparr>"

definition body0 :: "string \<Rightarrow> create_body" where
  "body0 c = \<lparr>body_content = Some c, body_category = Some [], body_recipient = Some [],
              body_sender = Some [], body_feeling = Some [], body_song = Some []\<rparr>"

section \<open>The confession service: properties\<close>

subsection \<open>Create\<close>



text \<open>
  Claim C9. An optional field sent as the empty string is handled as the same field left
  out: the two requests have the same effect and the same answer, for each of recipient,
  sender, feeling, song and category. In the row a successful create appends, such a
  recipient, sender, feeling or song is NULL and such a category is \<open>General\<close>.
\<close>

theorem empty_optional_fields_stored_as_absent:
  "post_confession raises now db (b\<lparr>body_recipient := Some []\<rparr>) =
     post_confession raises now db (b\<lparr>body_recipient := None\<rparr>) \<and>
   post_confession raises now db (b\<lparr>body_sender := Some []\<rparr>) =
     post_confession raises now db (b\<lparr>body_sender := None\<rparr>) \<and>
   post_confession raises now db (b\<lparr>body_feeling := Some []\<rparr>) =
     post_confession raises now db (b\<lparr>body_feeling := None\<rparr>) \<and>
   post_confession raises now db (b\<lparr>body_song := Some []\<rparr>) =
     post_confession raises now db (b\<lparr>body_song := None\<rparr>) \<and>
   post_confession raises now db (b\<lparr>body_category := Some []\<rparr>) =
     post_confession raises now db (b\<lparr>body_category := None\<rparr>) \<and>
   (\<forall>db' j. post_confession raises now db b = (db', (201, j)) \<longrightarrow>
      (\<exists>r. confessions db' = confessions db @ [r] \<and>
           (body_recipient b \<in> {None, Some []} \<longrightarrow> recipient r = None) \<and>
           (body_sender b \<in> {None, Some []} \<longrightarrow> sender r = None) \<and>
           (body_feeling b \<in> {None, Some []} \<longrightarrow> feeling r = None) \<and>
           (body_song b \<in> {None, Some []} \<longrightarrow> song r = None) \<and>
           (body_category b \<in> {None, Some []} \<longrightarrow> category r = ''General'')))"
proof -
  have same:
    "post_confession raises now db (b\<lparr>body_recipient := Some []\<rparr>) =
       post_confession raises now db (b\<lparr>body_recipient := None\<rparr>)"
    "post_confession raises now db (b\<lparr>body_sender := Some []\<rparr>) =
       post_confession raises now db (b\<lparr>body_sender := None\<rparr>)"
    "post_confession raises now db (b\<lparr>body_feeling := Some []\<rparr>) =
       post_confession raises now db (b\<lparr>body_feeling := None\<rparr>)"
    "post_confession raises now db (b\<lparr>body_song := Some []\<rparr>) =
       post_confession raises now db (b\<lparr>body_song := None\<rparr>)"
    "post_confession raises now db (b\<lparr>body_category := Some []\<rparr>) =
       post_confession raises now db (b\<lparr>body_category := None\<rparr>)"
    by (cases "body_content b"; simp add: post_confession_def or_null_def or_default_def)+
  have stored: "\<exists>r. confessions db' = confessions db @ [r] \<and>
           (body_recipient b \<in> {None, Some []} \<longrightarrow> recipient r = None) \<and>
           (body_sender b \<in> {None, Some []} \<longrightarrow> sender r = None) \<and>
           (body_feeling b \<in> {None, Some []} \<longrightarrow> feeling r = None) \<and>
           (body_song b \<in> {None, Some []} \<longrightarrow> song r = None) \<and>
           (body_category b \<in> {None, Some []} \<longrightarrow> category r = ''General'')"
    if run: "post_confession raises now db b = (db', (201, j))" for db' j
  proof -
    from run obtain c where c: "body_content b = Some c"
      by (cases "body_content b") (simp_all add: post_confession_def)
    let ?r = "\<lparr>row_id = sqlite_sequence db + 1, content = c,
               category = or_default (body_category b) ''General'',
               recipient = or_null (body_recipient b), sender = or_null (body_sender b),
               feeling = or_null (body_feeling b), song = or_null (body_song b),
               timestamp = now, likes = 0\<rparr>"
    from run c have "confessions db' = confessions db @ [?r]"
      by (auto simp: post_confession_def run_insert_def Let_def split: if_splits)
    then show ?thesis
      by (intro exI [of _ ?r]) (auto simp: or_null_def or_default_def)
  qed
  from same stored show ?thesis by blast
qed

theorem empty_optional_fields_stored_as_absent_witness:
  "post_confession False 20 db0 (body0 ''hello'') =
     (db0\<lparr>confessions := confessions db0 @
          [\<lparr>row_id = 3, content = ''hello'', category = ''General'', recipient = None,
            sender = None, feeling = None, song = None, timestamp = 20, likes = 0\<rparr>],
         sqlite_sequence := 3\<rparr>, (201, JId 3)) \<and>
   (\<exists>r. confessions (fst (post_confession False 20 db0 (body0 ''hello''))) =
          confessions db0 @ [r] \<and>
        recipient r = None \<and> sender r = None \<and> feeling r = None \<and> song r = None \<and>
        category r = ''General'')"
proof -
  have run: "post_confession False 20 db0 (body0 ''hello'') =
     (db0\<lparr>confessions := confessions db0 @
          [\<lparr>row_id = 3, content = ''hello'', category = ''General'', recipient = None,
            sender = None, feeling = None, song = None, timestamp = 20, likes = 0\<rparr>],
         sqlite_sequence := 3\<rparr>, (201, JId 3))"
    by (simp add: post_confession_def run_insert_def db0_def body0_def or_null_def
        or_default_def)
  from empty_optional_fields_stored_as_absent [of False 20 db0 "body0 ''hello''"] run
  have "\<exists>r. confessions (fst (post_confession False 20 db0 (body0 ''hello''))) =
          confessions db0 @ [r] \<and>
        (body_recipient (body0 ''hello'') \<in> {None, Some []} \<longrightarrow> recipient r = None) \<and>
        (body_sender (body0 ''hello'') \<in> {None, Some []} \<longrightarrow> sender r = None) \<and>
        (body_feeling (body0 ''hello'') \<in> {None, Some []} \<longrightarrow> feeling r = None) \<and>
        (body_song (body0 ''hello'') \<in> {None, Some []} \<longrightarrow> song r = None) \<and>
        (body_category (body0 ''hello'') \<in> {None, Some []} \<longrightarrow> category r = ''General'')"
    by (metis fst_conv)
  then have "\<exists>r. confessions (fst (post_confession False 20 db0 (body0 ''hello''))) =
          confessions db0 @ [r] \<and>
        recipient r = None \<and> sender r = None \<and> feeling r = None \<and> song r = None \<and>
        category r = ''General''"
    by (simp add: body0_def)
  with run show ?thesis by simp
qed

subsection \<open>Like\<close>



subsection \<open>List recent\<close>

lemma length_insert_desc: "length (insert_desc r xs) = Suc (length xs)"
  by (induction xs) simp_all

lemma set_insert_desc: "set (insert_desc r xs) = insert r (set xs)"
  by (induction xs) auto

lemma newest_first_insert_desc: "newest_first xs \<Longrightarrow> newest_first (insert_desc r xs)"
  unfolding newest_first_def by (induction xs) (auto simp: set_insert_desc)

lemma length_order_by: "length (order_by_timestamp_desc xs) = length xs"
  by (induction xs) (simp_all add: length_insert_desc)

lemma set_order_by: "set (order_by_timestamp_desc xs) = set xs"
  by (induction xs) (simp_all add: set_insert_desc)

lemma newest_first_order_by: "newest_first (order_by_timestamp_desc xs)"
  by (induction xs) (simp_all add: newest_first_insert_desc, simp add: newest_first_def)

text \<open>
  Claim C3. When the query does not raise, the listing answers 200 with a list of rows; and
  whatever list of rows the listing answers has at most 50 rows, is ordered newest first, has
  50 rows or the whole table when that is smaller, and holds rows of the table only.
\<close>

theorem list_recent_capped_and_ordered:
  "(\<not> raises \<longrightarrow> (\<exists>rows. get_confessions raises db = (200, JConfessions rows))) \<and>
   (\<forall>st rows. get_confessions raises db = (st, JConfessions rows) \<longrightarrow>
      length rows \<le> 50 \<and> newest_first rows \<and>
      length rows = min 50 (length (confessions db)) \<and> set rows \<subseteq> set (confessions db))"
proof (intro conjI allI impI)
  assume "\<not> raises"
  then show "\<exists>rows. get_confessions raises db = (200, JConfessions rows)"
    by (simp add: get_confessions_def all_recent_def)
next
  fix st rows
  assume "get_confessions raises db = (st, JConfessions rows)"
  then have rows: "rows = take 50 (order_by_timestamp_desc (confessions db))"
    by (auto simp: get_confessions_def all_recent_def split: if_splits)
  show "length rows \<le> 50" by (simp add: rows)
  show "newest_first rows"
    using newest_first_order_by [of "confessions db"]
    unfolding rows newest_first_def by (rule sorted_wrt_take)
  show "length rows = min 50 (length (confessions db))"
    by (simp add: rows length_order_by min.commute)
  show "set rows \<subseteq> set (confessions db)"
    unfolding rows using set_take_subset [of 50 "order_by_timestamp_desc (confessions db)"]
    by (simp add: set_order_by)
qed

theorem list_recent_capped_and_ordered_witness:
  "get_confessions False db0 = (200, JConfessions [confessions db0 ! 1, confessions db0 ! 0]) \<and>
   length [confessions db0 ! 1, confessions db0 ! 0] \<le> 50 \<and>
   newest_first [confessions db0 ! 1, confessions db0 ! 0]"
proof -
  have run: "get_confessions False db0 =
      (200, JConfessions [confessions db0 ! 1, confessions db0 ! 0])"
    by (simp add: get_confessions_def all_recent_def db0_def)
  from list_recent_capped_and_ordered [of False db0] run show ?thesis
    by blast
qed

end
